theory Spec2Isabelle
  imports Complex_Main
begin

section \<open>Data model\<close>

text \<open>
  Python values that the dialogue manager only moves around (entity values, entries of the
  conversation context, JSON results of the external API) are strings here. Dictionaries
  whose iteration order the code never relies on are maps; the NLU entity dictionary, which
  the slot-filling code iterates, is an association list in insertion order.
\<close>

type_synonym pyval = string
type_synonym pydict = "string \<rightharpoonup> pyval"
type_synonym entity_dict = "(string \<times> pyval) list"

datatype exn =
    DialogueManagerException
  | APICallExcetion
  | AttributeError
  | KeyError
  | IndexError
  | TypeError
  | ValueError
  | OtherException string

text \<open>
  Modelled from the spec: the classes \<open>UserMessage\<close>, \<open>ParameterModel\<close>, \<open>IntentModel\<close> and
  the API details of an intent live in \<open>app/bot/dialogue_manager/models.py\<close>, which is not
  among the sources. Their fields are the ones the spec lists and the code reads.
  \<open>um_context\<close> is \<open>None\<close> when the message carries no dictionary as context.
\<close>

record UserMessage =
  um_thread_id :: string
  um_text :: string
  um_context :: "pydict option"

record ParameterModel =
  p_name :: string
  p_type :: string
  p_required :: bool
  p_prompt :: string

record ApiDetails =
  url :: string
  request_type :: string
  headers :: "(string \<times> string) list"
  is_json :: bool
  json_data :: string

record IntentModel =
  intent_id :: string
  im_parameters :: "ParameterModel list"
  api_trigger :: bool
  api_details :: "ApiDetails option"
  speech_response :: string

text \<open>One entry \<open>{"name": .., "type": .., "required": ..}\<close> of \<open>State.parameters\<close>.\<close>

record param_desc =
  d_name :: string
  d_type :: string
  d_required :: bool

text \<open>One segment \<open>{"text": msg}\<close> of \<open>State.bot_message\<close>.\<close>

datatype segment = Segment string

text \<open>
  The prediction of the NLU pipeline, a dictionary. The outer option of a field says
  whether the key is present: the intent classifier delivers
  \<open>{"intent": name, "confidence": c}\<close> and, when it has nothing to predict,
  \<open>{"name": None, "confidence": 0.0}\<close>, which has no key \<open>intent\<close>; the zero-shot
  component delivers \<open>{"intent": None, "confidence": 0.0}\<close>, whose \<open>intent\<close> is
  Python's \<open>None\<close> (the inner option).
\<close>

record predicted =
  pr_intent :: "string option option"
  pr_confidence :: "real option"

text \<open>
  The result of the NLU pipeline, a dictionary: the key \<open>intent\<close> may be missing
  (\<open>None\<close>) or hold Python's \<open>None\<close> (\<open>Some None\<close>); the key \<open>entities\<close> may be
  missing.
\<close>

record nlu_result =
  nr_intent :: "predicted option option"
  nr_entities :: "entity_dict option"

text \<open>
  \<open>State.nlu\<close> is either the empty dictionary (\<open>None\<close> below) or the dictionary
  \<open>{"entities": .., "intent": ..}\<close> that \<open>process\<close> stores, whose two values are
  the results of \<open>nlu_result.get\<close> and so may be Python's \<open>None\<close>.
\<close>

record nlu_info =
  nlu_entities :: "entity_dict option"
  nlu_intent :: "predicted option"

text \<open>
  The class \<open>State\<close> of \<open>app/bot/memory/models.py\<close>. Optional fields are options:
  \<open>intent\<close> is \<open>None\<close> after a reset, \<open>bot_message\<close> is \<open>None\<close> until set,
  \<open>current_node\<close> is \<open>None\<close>, the empty string or a slot name. The field \<open>context\<close>
  is called \<open>ctx\<close>. A timestamp is a natural number read from a clock.
\<close>

record State =
  thread_id :: string
  user_message :: "UserMessage option"
  bot_message :: "segment list option"
  nlu :: "nlu_info option"
  ctx :: pydict
  intent :: "pydict option"
  parameters :: "param_desc list"
  extracted_parameters :: pydict
  missing_parameters :: "string list"
  complete :: bool
  current_node :: "string option"
  date :: nat

section \<open>State\<close>

text \<open>
  \<open>State.__init__\<close>: \<open>x or {}\<close> and \<open>x or []\<close> replace \<open>None\<close> (and an empty
  value, by an equal empty value); \<open>nlu\<close> always starts empty; \<open>date or now\<close> reads
  the clock when no date is given.
\<close>

definition or_dict :: "pydict option \<Rightarrow> pydict" where
  "or_dict d = (case d of None \<Rightarrow> Map.empty | Some m \<Rightarrow> m)"

definition or_list :: "'a list option \<Rightarrow> 'a list" where
  "or_list l = (case l of None \<Rightarrow> [] | Some xs \<Rightarrow> xs)"

definition State_init ::
  "nat \<Rightarrow> string \<Rightarrow> UserMessage option \<Rightarrow> segment list option \<Rightarrow> pydict option \<Rightarrow>
   pydict option \<Rightarrow> param_desc list option \<Rightarrow> pydict option \<Rightarrow> string list option \<Rightarrow>
   bool \<Rightarrow> string option \<Rightarrow> nat option \<Rightarrow> State" where
  "State_init now tid um bm c i ps ex ms cmpl node d =
     \<lparr> thread_id = tid,
       user_message = um,
       bot_message = bm,
       nlu = None,
       ctx = or_dict c,
       intent = Some (or_dict i),
       parameters = or_list ps,
       extracted_parameters = or_dict ex,
       missing_parameters = or_list ms,
       complete = cmpl,
       current_node = node,
       date = (case d of None \<Rightarrow> now | Some t \<Rightarrow> t) \<rparr>"

text \<open>
  \<open>State.update\<close>: store the message, refresh the date, merge the message's context
  into the state's when it is a dictionary, and reset the slot-filling fields when the
  previous turn had completed.
\<close>

definition update :: "nat \<Rightarrow> UserMessage \<Rightarrow> State \<Rightarrow> State" where
  "update now m s =
     (let s1 = s\<lparr> user_message := Some m, date := now \<rparr>;
          s2 = (case um_context m of
                  None \<Rightarrow> s1
                | Some c \<Rightarrow> s1\<lparr> ctx := ctx s1 ++ c \<rparr>)
      in if complete s2
         then s2\<lparr> bot_message := Some [],
                  intent := None,
                  parameters := [],
                  extracted_parameters := Map.empty,
                  missing_parameters := [],
                  complete := False,
                  current_node := None \<rparr>
         else s2)"

section \<open>Splitting strings\<close>

text \<open>Python's \<open>s.split(d)\<close> for a one-character separator \<open>d\<close>.\<close>

fun split_acc :: "char \<Rightarrow> string \<Rightarrow> string \<Rightarrow> string list" where
  "split_acc d acc [] = [rev acc]"
| "split_acc d acc (c # cs) =
     (if c = d then rev acc # split_acc d [] cs else split_acc d (c # acc) cs)"

definition split_char :: "char \<Rightarrow> string \<Rightarrow> string list" where
  "split_char d s = split_acc d [] s"

text \<open>
  \<open>split_sentence\<close> of \<open>utils.py\<close>: \<open>sentence.split("###")\<close>, which cuts at each
  leftmost occurrence of the three characters and never returns an empty list.
\<close>

fun split_hash :: "string \<Rightarrow> string \<Rightarrow> string list" where
  "split_hash acc [] = [rev acc]"
| "split_hash acc (c # cs) =
     (if take 3 (c # cs) = ''###'' then rev acc # split_hash [] (drop 2 cs)
      else split_hash (c # acc) cs)"

definition split_sentence :: "string \<Rightarrow> string list" where
  "split_sentence sentence = split_hash [] sentence"

section \<open>Intent resolution\<close>

text \<open>The part of a \<open>DialogueManager\<close> that intent resolution reads.\<close>

record DialogueManager =
  fallback_intent_id :: string
  confidence_threshold :: real

text \<open>
  \<open>_get_intent_id_and_confidence\<close>. Reading the text of a missing message is an
  AttributeError and index 1 of a split with fewer than two parts an IndexError.
  \<open>nlu_result["intent"]\<close> is a KeyError on a missing key; subscripting a prediction
  that is \<open>None\<close> is a TypeError; \<open>predicted["confidence"]\<close> and, when the
  confidence is not below the threshold, \<open>predicted["intent"]\<close> are KeyErrors on a
  missing key. The intent id returned is a text or, from the prediction, \<open>None\<close>.
\<close>

definition get_intent_id_and_confidence ::
  "DialogueManager \<Rightarrow> State \<Rightarrow> nlu_result \<Rightarrow> exn + (string option \<times> real)" where
  "get_intent_id_and_confidence dm current_state nr =
     (case user_message current_state of
        None \<Rightarrow> Inl AttributeError
      | Some um \<Rightarrow>
          let input_text = um_text um in
          if take 1 input_text = ''/''
          then (case split_char CHR ''/'' input_text of
                  _ # iid # _ \<Rightarrow> Inr (Some iid, 1)
                | _ \<Rightarrow> Inl IndexError)
          else (case nr_intent nr of
                  None \<Rightarrow> Inl KeyError
                | Some None \<Rightarrow> Inl TypeError
                | Some (Some p) \<Rightarrow>
                    (case pr_confidence p of
                       None \<Rightarrow> Inl KeyError
                     | Some c \<Rightarrow>
                         if c < confidence_threshold dm
                         then Inr (Some (fallback_intent_id dm), 1)
                         else (case pr_intent p of
                                 None \<Rightarrow> Inl KeyError
                               | Some i \<Rightarrow> Inr (i, c)))))"

section \<open>Slot filling\<close>

type_synonym entities_by_type = "string \<rightharpoonup> pyval list"

text \<open>
  The grouping loop of \<open>_process_intent\<close>: each entity value is appended to the list
  kept under its entity name, which is created empty on first sight.
\<close>

fun group_entities :: "entity_dict \<Rightarrow> entities_by_type \<Rightarrow> entities_by_type" where
  "group_entities [] ebt = ebt"
| "group_entities ((entity_name, entity_value) # es) ebt =
     group_entities es
       (ebt(entity_name \<mapsto> (case ebt entity_name of None \<Rightarrow> [] | Some vs \<Rightarrow> vs) @ [entity_value]))"

definition snapshot :: "ParameterModel \<Rightarrow> param_desc" where
  "snapshot param = \<lparr> d_name = p_name param, d_type = p_type param, d_required = p_required param \<rparr>"

text \<open>
  The snapshot block of \<open>_process_intent\<close>: when the state's parameter list is empty,
  one descriptor per parameter of the list at hand is appended to it.
\<close>

definition snapshot_parameters :: "ParameterModel list \<Rightarrow> State \<Rightarrow> State" where
  "snapshot_parameters ps current_state =
     (if length (parameters current_state) = 0
      then current_state\<lparr> parameters := parameters current_state @ map snapshot ps \<rparr>
      else current_state)"

text \<open>
  The extraction loop of \<open>_process_intent\<close> over the parameter list it is given. The
  loop reads the state's \<open>user_message\<close> and \<open>current_node\<close>, which it does not change,
  and updates \<open>entities_by_type\<close> (by \<open>pop(0)\<close>) and \<open>extracted_parameters\<close>. Reading
  the text of a missing message is an AttributeError.
\<close>

fun fill_slots ::
  "ParameterModel list \<Rightarrow> UserMessage option \<Rightarrow> string option \<Rightarrow>
   entities_by_type \<Rightarrow> pydict \<Rightarrow> exn + (entities_by_type \<times> pydict)" where
  "fill_slots [] um node ebt ex = Inr (ebt, ex)"
| "fill_slots (param # ps) um node ebt ex =
     (if p_type param = ''free_text'' \<and> node = Some (p_name param)
      then (case um of
              None \<Rightarrow> Inl AttributeError
            | Some m \<Rightarrow> fill_slots ps um node ebt (ex(p_name param \<mapsto> um_text m)))
      else (case ebt (p_type param) of
              Some (v # vs) \<Rightarrow>
                fill_slots ps um node (ebt(p_type param \<mapsto> vs)) (ex(p_name param \<mapsto> v))
            | _ \<Rightarrow> fill_slots ps um node ebt ex))"

text \<open>\<open>_handle_missing_parameters\<close>.\<close>

definition handle_missing_parameters :: "ParameterModel list \<Rightarrow> State \<Rightarrow> State" where
  "handle_missing_parameters ps current_state =
     (let s1 = current_state\<lparr> missing_parameters := [],
                              current_node := None,
                              bot_message := Some [] \<rparr>;
          missing = filter (\<lambda>parameter. p_required parameter
                              \<and> extracted_parameters s1 (p_name parameter) = None) ps;
          s2 = s1\<lparr> missing_parameters := map p_name missing \<rparr>
      in case missing of
           [] \<Rightarrow> s2
         | node # _ \<Rightarrow>
             s2\<lparr> current_node := Some (p_name node),
                 bot_message := Some (map Segment (split_sentence (p_prompt node))) \<rparr>)"

text \<open>
  \<open>current_state.nlu.get("entities", {})\<close>: the empty dictionary when \<open>nlu\<close> has no
  such key, and otherwise the stored value, which may be Python's \<open>None\<close>.
\<close>

definition nlu_get_entities :: "State \<Rightarrow> entity_dict option" where
  "nlu_get_entities current_state =
     (case nlu current_state of None \<Rightarrow> Some [] | Some n \<Rightarrow> nlu_entities n)"

text \<open>
  \<open>_process_intent\<close>. Calling \<open>items\<close> on \<open>None\<close> entities is an AttributeError.
\<close>

definition process_intent ::
  "IntentModel \<Rightarrow> IntentModel \<Rightarrow> State \<Rightarrow> exn + (State \<times> IntentModel)" where
  "process_intent query_intent active_intent current_state =
     (if intent_id query_intent = ''cancel''
      then Inr (current_state\<lparr> complete := True,
                               parameters := [],
                               extracted_parameters := Map.empty,
                               missing_parameters := [],
                               current_node := None \<rparr>, query_intent)
      else
        let ps = im_parameters active_intent in
        if ps \<noteq> []
        then (case nlu_get_entities current_state of
                None \<Rightarrow> Inl AttributeError
              | Some extracted_entities \<Rightarrow>
                  let ebt = group_entities extracted_entities Map.empty;
                      s1 = snapshot_parameters ps current_state
                  in (case fill_slots ps (user_message s1) (current_node s1) ebt
                             (extracted_parameters s1) of
                        Inl e \<Rightarrow> Inl e
                      | Inr (_, ex) \<Rightarrow>
                          (let s2 = handle_missing_parameters ps
                                      (s1\<lparr> extracted_parameters := ex \<rparr>)
                           in Inr (s2\<lparr> complete := (missing_parameters s2 = []) \<rparr>,
                                   active_intent))))
        else Inr (current_state\<lparr> complete := (missing_parameters current_state = []) \<rparr>,
                  active_intent))"

section \<open>Response and API trigger\<close>

text \<open>
  The collaborators outside the repository. \<open>render\<close> stands for building a Jinja
  template from a text and rendering it with \<open>context\<close>, \<open>parameters\<close> and, when
  given, \<open>result\<close>; \<open>json_loads\<close> for \<open>json.loads\<close>; \<open>str_upper\<close> for Python's
  \<open>str.upper\<close>, which knows all of Unicode; \<open>http\<close> for the request made through
  aiohttp, with the upper-cased method. A failure of a template or of the JSON parser is
  an exception of the library's own, \<open>OtherException\<close> here.
\<close>

datatype http_outcome = HttpOk pyval | ClientError | TimeoutError | HttpOther string

record env =
  render :: "string \<Rightarrow> pydict \<Rightarrow> pydict \<Rightarrow> pyval option \<Rightarrow> string + string"
  json_loads :: "string \<Rightarrow> string + pydict"
  str_upper :: "string \<Rightarrow> string"
  http :: "string \<Rightarrow> string \<Rightarrow> (string \<rightharpoonup> string) \<Rightarrow> pydict \<Rightarrow> bool \<Rightarrow> http_outcome"

text \<open>
  \<open>call_api\<close> of \<open>http_client.py\<close>: a client error (which includes a bad status) and
  a timeout become \<open>APICallExcetion\<close>; an unsupported method is a ValueError and, like
  any other exception, is raised again unchanged.
\<close>

definition call_api ::
  "env \<Rightarrow> string \<Rightarrow> string \<Rightarrow> (string \<rightharpoonup> string) \<Rightarrow> pydict \<Rightarrow> bool \<Rightarrow> exn + pyval" where
  "call_api ev u method hs ps isj =
     (let method_up = str_upper ev method in
      if method_up = ''GET'' \<or> method_up = ''POST'' \<or> method_up = ''PUT''
           \<or> method_up = ''DELETE''
      then (case http ev method_up u hs ps isj of
              HttpOk r \<Rightarrow> Inr r
            | ClientError \<Rightarrow> Inl APICallExcetion
            | TimeoutError \<Rightarrow> Inl APICallExcetion
            | HttpOther e \<Rightarrow> Inl (OtherException e))
      else Inl ValueError)"

text \<open>
  Modelled from the spec: \<open>get_headers\<close> of the API details (in the absent
  \<open>models.py\<close>) turns the list of key/value pairs into the header dictionary.
\<close>

definition get_headers :: "ApiDetails \<Rightarrow> (string \<rightharpoonup> string)" where
  "get_headers d = map_of (headers d)"

text \<open>
  The request parameters of \<open>_call_intent_api\<close>: the rendered JSON template, parsed,
  when the API takes JSON, and the extracted parameters otherwise.
\<close>

definition request_parameters :: "env \<Rightarrow> ApiDetails \<Rightarrow> State \<Rightarrow> exn + pydict" where
  "request_parameters ev d current_state =
     (if is_json d
      then (case render ev (json_data d) (ctx current_state)
                   (extracted_parameters current_state) None of
              Inl e \<Rightarrow> Inl (OtherException e)
            | Inr request_json \<Rightarrow>
                (case json_loads ev request_json of
                   Inl e \<Rightarrow> Inl (OtherException e)
                 | Inr ps \<Rightarrow> Inr ps))
      else Inr (extracted_parameters current_state))"

text \<open>
  \<open>_call_intent_api\<close>: the URL is rendered, then the request parameters are built, then
  the API is called; \<open>APICallExcetion\<close> from the call is raised again as
  \<open>DialogueManagerException\<close>.
\<close>

definition call_intent_api :: "env \<Rightarrow> IntentModel \<Rightarrow> State \<Rightarrow> exn + pyval" where
  "call_intent_api ev i current_state =
     (case api_details i of
        None \<Rightarrow> Inl AttributeError
      | Some d \<Rightarrow>
          (case render ev (url d) (ctx current_state) (extracted_parameters current_state) None of
             Inl e \<Rightarrow> Inl (OtherException e)
           | Inr rendered_url \<Rightarrow>
               (case request_parameters ev d current_state of
                  Inl e \<Rightarrow> Inl e
                | Inr ps \<Rightarrow>
                    (case call_api ev rendered_url (request_type d) (get_headers d) ps (is_json d) of
                       Inl APICallExcetion \<Rightarrow> Inl DialogueManagerException
                     | Inl e \<Rightarrow> Inl e
                     | Inr r \<Rightarrow> Inr r))))"

definition fallback_message :: "segment list" where
  "fallback_message = [Segment ''Service is not available. Please try again later.'']"

text \<open>\<open>_handle_api_trigger\<close>.\<close>

definition handle_api_trigger :: "env \<Rightarrow> IntentModel \<Rightarrow> State \<Rightarrow> exn + State" where
  "handle_api_trigger ev i current_state =
     (if api_trigger i \<and> api_details i \<noteq> None
      then (case (case call_intent_api ev i current_state of
                    Inl e \<Rightarrow> Inl e
                  | Inr result \<Rightarrow>
                      (case render ev (speech_response i) (ctx current_state)
                              (extracted_parameters current_state) (Some result) of
                         Inl e \<Rightarrow> Inl (OtherException e)
                       | Inr rendered_text \<Rightarrow>
                           Inr (current_state\<lparr> bot_message :=
                                  Some (map Segment (split_sentence rendered_text)) \<rparr>))) of
              Inl DialogueManagerException \<Rightarrow>
                Inr (current_state\<lparr> bot_message := Some fallback_message \<rparr>)
            | Inl e \<Rightarrow> Inl e
            | Inr s \<Rightarrow> Inr s)
      else (case render ev (speech_response i) (ctx current_state)
                   (extracted_parameters current_state) None of
              Inl e \<Rightarrow> Inl (OtherException e)
            | Inr rendered_text \<Rightarrow>
                Inr (current_state\<lparr> bot_message :=
                       Some (map Segment (split_sentence rendered_text)) \<rparr>)))"

section \<open>Persistence\<close>

text \<open>
  A stored document: the dictionary built by \<open>State.to_dict\<close>, possibly with keys
  removed by a projection. For each key the outer option says whether the key is present;
  where the value itself may be Python's \<open>None\<close> there is an inner option. The date is
  kept as the timestamp that its ISO text denotes.
\<close>

record doc =
  k_thread_id :: "string option"
  k_user_message :: "UserMessage option option"
  k_bot_message :: "segment list option option"
  k_nlu :: "nlu_info option option"
  k_context :: "pydict option"
  k_intent :: "pydict option option"
  k_parameters :: "param_desc list option"
  k_extracted_parameters :: "pydict option"
  k_missing_parameters :: "string list option"
  k_complete :: "bool option"
  k_current_node :: "string option option"
  k_date :: "nat option"

text \<open>\<open>State.to_dict\<close>: every key is present.\<close>

definition to_dict :: "State \<Rightarrow> doc" where
  "to_dict s =
     \<lparr> k_thread_id = Some (thread_id s),
       k_user_message = Some (user_message s),
       k_bot_message = Some (bot_message s),
       k_nlu = Some (nlu s),
       k_context = Some (ctx s),
       k_intent = Some (intent s),
       k_parameters = Some (parameters s),
       k_extracted_parameters = Some (extracted_parameters s),
       k_missing_parameters = Some (missing_parameters s),
       k_complete = Some (complete s),
       k_current_node = Some (current_node s),
       k_date = Some (date s) \<rparr>"

text \<open>\<open>d.get(k)\<close> for a key whose value may be \<open>None\<close>: absent and \<open>None\<close> read alike.\<close>

definition dget :: "'a option option \<Rightarrow> 'a option" where
  "dget v = (case v of None \<Rightarrow> None | Some x \<Rightarrow> x)"

text \<open>
  \<open>State.from_dict\<close>: \<open>state_dict["thread_id"]\<close> is a KeyError when the key is absent;
  every other field is read with \<open>get\<close>, \<open>complete\<close> and \<open>current_node\<close> with the
  defaults \<open>False\<close> and the empty string. The constructor does not take \<open>nlu\<close>.
\<close>

definition from_dict :: "nat \<Rightarrow> doc \<Rightarrow> exn + State" where
  "from_dict now state_dict =
     (case k_thread_id state_dict of
        None \<Rightarrow> Inl KeyError
      | Some tid \<Rightarrow>
          Inr (State_init now tid
                 (dget (k_user_message state_dict))
                 (dget (k_bot_message state_dict))
                 (k_context state_dict)
                 (dget (k_intent state_dict))
                 (k_parameters state_dict)
                 (k_extracted_parameters state_dict)
                 (k_missing_parameters state_dict)
                 (case k_complete state_dict of None \<Rightarrow> False | Some b \<Rightarrow> b)
                 (case k_current_node state_dict of None \<Rightarrow> Some [] | Some n \<Rightarrow> n)
                 (k_date state_dict)))"

text \<open>
  The MongoDB collection is outside the repository: it is the list of the inserted
  documents, oldest first. \<open>insert_one\<close> appends; \<open>find_one\<close> with the filter on
  \<open>thread_id\<close> and the reverse natural order returns the newest matching document, without
  the keys that the projection of \<open>MemorySaverMongo.get\<close> excludes.
\<close>

type_synonym collection = "doc list"

definition insert_one :: "collection \<Rightarrow> doc \<Rightarrow> collection" where
  "insert_one coll d = coll @ [d]"

definition project :: "doc \<Rightarrow> doc" where
  "project d = d\<lparr> k_nlu := None, k_date := None, k_user_message := None, k_bot_message := None \<rparr>"

definition find_one :: "collection \<Rightarrow> string \<Rightarrow> doc option" where
  "find_one coll tid =
     (case filter (\<lambda>d. k_thread_id d = Some tid) (rev coll) of
        [] \<Rightarrow> None
      | d # _ \<Rightarrow> Some (project d))"

text \<open>\<open>MemorySaverMongo.save\<close>, which does not read its \<open>thread_id\<close> argument.\<close>

definition save :: "collection \<Rightarrow> string \<Rightarrow> State \<Rightarrow> collection" where
  "save coll tid state = insert_one coll (to_dict state)"

text \<open>\<open>MemorySaverMongo.get\<close>, called at clock value \<open>now\<close>.\<close>

definition get :: "nat \<Rightarrow> collection \<Rightarrow> string \<Rightarrow> exn + State option" where
  "get now coll tid =
     (case find_one coll tid of
        None \<Rightarrow> Inr None
      | Some result \<Rightarrow>
          (case from_dict now result of
             Inl e \<Rightarrow> Inl e
           | Inr s \<Rightarrow> Inr (Some s)))"

section \<open>Notions used in the statements\<close>

text \<open>
  The parameters of a list that are required and have no entry in a dictionary of
  extracted values, in declared order: the test of the loop in
  \<open>_handle_missing_parameters\<close>.
\<close>

definition required_unfilled :: "ParameterModel list \<Rightarrow> pydict \<Rightarrow> ParameterModel list" where
  "required_unfilled ps ex = filter (\<lambda>p. p_required p \<and> ex (p_name p) = None) ps"

text \<open>
  The missing-parameter invariant in the words of the specification, read over the
  parameter list of the active intent:
  \<open>set(missing_parameters) == {p.name for p in parameters if p.required and p.name not in
  extracted_parameters}\<close> and \<open>complete == (len(missing_parameters) == 0)\<close>.
\<close>

definition missing_invariant :: "ParameterModel list \<Rightarrow> State \<Rightarrow> bool" where
  "missing_invariant ps s \<longleftrightarrow>
     set (missing_parameters s) =
       {p_name p | p. p \<in> set ps \<and> p_required p \<and> extracted_parameters s (p_name p) = None}
     \<and> (complete s \<longleftrightarrow> length (missing_parameters s) = 0)"

text \<open>The same invariant read over the descriptors stored in \<open>State.parameters\<close>.\<close>

definition missing_invariant_state :: "State \<Rightarrow> bool" where
  "missing_invariant_state s \<longleftrightarrow>
     set (missing_parameters s) =
       {d_name d | d. d \<in> set (parameters s) \<and> d_required d
                      \<and> extracted_parameters s (d_name d) = None}
     \<and> (complete s \<longleftrightarrow> length (missing_parameters s) = 0)"



text \<open>
  A sequence of calls of \<open>MemorySaverMongo.save\<close>, each with its thread id argument and
  its state.
\<close>

fun save_all :: "collection \<Rightarrow> (string \<times> State) list \<Rightarrow> collection" where
  "save_all coll [] = coll"
| "save_all coll ((tid, state) # later) = save_all (save coll tid state) later"

section \<open>An example conversation\<close>

definition ex_origin :: ParameterModel where
  "ex_origin = \<lparr> p_name = ''origin'', p_type = ''city'', p_required = True,
                  p_prompt = ''Where from?'' \<rparr>"

definition ex_destination :: ParameterModel where
  "ex_destination = \<lparr> p_name = ''destination'', p_type = ''city'', p_required = True,
                       p_prompt = ''Where to?###Any city will do.'' \<rparr>"

definition ex_travel_date :: ParameterModel where
  "ex_travel_date = \<lparr> p_name = ''travel_date'', p_type = ''date'', p_required = True,
                       p_prompt = ''When?'' \<rparr>"


definition ex_book_flight :: IntentModel where
  "ex_book_flight = \<lparr> intent_id = ''book_flight'', im_parameters = [ex_origin, ex_destination],
                       api_trigger = False, api_details = None, speech_response = ''Booked.'' \<rparr>"

text \<open>The same intent after its second parameter has been replaced in the catalog.\<close>

definition ex_book_flight_changed :: IntentModel where
  "ex_book_flight_changed = ex_book_flight\<lparr> im_parameters := [ex_origin, ex_travel_date] \<rparr>"


definition ex_greet :: IntentModel where
  "ex_greet = \<lparr> intent_id = ''greet'', im_parameters = [],
                 api_trigger = False, api_details = None,
                 speech_response = ''Hi###How can I help?'' \<rparr>"

definition ex_cancel :: IntentModel where
  "ex_cancel = \<lparr> intent_id = ''cancel'', im_parameters = [],
                  api_trigger = False, api_details = None, speech_response = ''Cancelled.'' \<rparr>"

definition ex_message :: "string \<Rightarrow> UserMessage" where
  "ex_message t = \<lparr> um_thread_id = ''t1'', um_text = t, um_context = None \<rparr>"

definition ex_nlu :: "entity_dict \<Rightarrow> nlu_info" where
  "ex_nlu es = \<lparr> nlu_entities = Some es,
                  nlu_intent = Some \<lparr> pr_intent = Some (Some ''book_flight''),
                                       pr_confidence = Some 0.9 \<rparr> \<rparr>"

text \<open>First turn: a fresh state that has received ``I want to fly from Boston''.\<close>

definition ex_turn1 :: State where
  "ex_turn1 =
     (State_init 0 ''t1'' (Some (ex_message ''I want to fly from Boston''))
        None None None None None None False (Some []) None)
     \<lparr> nlu := Some (ex_nlu [(''city'', ''Boston'')]) \<rparr>"

definition ex_turn1_result :: State where
  "ex_turn1_result =
     ex_turn1\<lparr> parameters := [snapshot ex_origin, snapshot ex_destination],
               extracted_parameters := [''origin'' \<mapsto> ''Boston''],
               missing_parameters := [''destination''],
               current_node := Some ''destination'',
               bot_message := Some [Segment ''Where to?'', Segment ''Any city will do.''],
               complete := False \<rparr>"

text \<open>Second turn: the state of the first turn has received ``to Denver''.\<close>

definition ex_turn2 :: State where
  "ex_turn2 =
     ex_turn1_result\<lparr> user_message := Some (ex_message ''to Denver''),
                      nlu := Some (ex_nlu [(''city'', ''Denver'')]) \<rparr>"

text \<open>
  A turn that fills the last open slot: the destination is known, the origin is being
  prompted for, and the utterance names a city.
\<close>

definition ex_last_slot :: State where
  "ex_last_slot =
     ex_turn1\<lparr> parameters := [snapshot ex_origin, snapshot ex_destination],
               extracted_parameters := [''destination'' \<mapsto> ''Denver''],
               missing_parameters := [''origin''],
               current_node := Some ''origin'',
               bot_message := Some [Segment ''Where from?''] \<rparr>"

text \<open>
  A state stored in the middle of slot filling, met again by an intent without
  parameters.
\<close>

definition ex_stale :: State where
  "ex_stale =
     (State_init 0 ''t1'' (Some (ex_message ''hello''))
        None None (Some [''id'' \<mapsto> ''greet'']) None None (Some [''destination'']) False None None)
     \<lparr> nlu := Some (ex_nlu []) \<rparr>"


text \<open>A completed state, and the message that follows it.\<close>

definition ex_done :: State where
  "ex_done =
     State_init 0 ''t1'' (Some (ex_message ''to Denver'')) (Some [Segment ''Booked.''])
       (Some [''lang'' \<mapsto> ''en'']) (Some [''id'' \<mapsto> ''book_flight''])
       (Some [snapshot ex_origin, snapshot ex_destination])
       (Some [''origin'' \<mapsto> ''Boston'', ''destination'' \<mapsto> ''Denver''])
       None True None None"

definition ex_next_message :: UserMessage where
  "ex_next_message = \<lparr> um_thread_id = ''t1'', um_text = ''hello again'',
                        um_context = Some [''user'' \<mapsto> ''ann''] \<rparr>"

text \<open>
  An intent with an API trigger, and collaborators whose HTTP request times out; of
  \<open>str.upper\<close> they need the value at the one method text in use.
\<close>

definition ex_api_details :: ApiDetails where
  "ex_api_details = \<lparr> url = ''http://flights/book'', request_type = ''get'',
                       headers = [], is_json = False, json_data = [] \<rparr>"

definition ex_api_intent :: IntentModel where
  "ex_api_intent = \<lparr> intent_id = ''book_flight'', im_parameters = [ex_origin, ex_destination],
                      api_trigger = True, api_details = Some ex_api_details,
                      speech_response = ''Booked: {{ result }}'' \<rparr>"

definition ex_env_down :: env where
  "ex_env_down = \<lparr> render = (\<lambda>t c ps r. Inr t),
                    json_loads = (\<lambda>t. Inl ''not JSON''),
                    str_upper = (\<lambda>m. if m = ''get'' then ''GET'' else m),
                    http = (\<lambda>m u hs ps j. TimeoutError) \<rparr>"

section \<open>State reset\<close>

text \<open>
  C2: when \<open>complete\<close> holds, \<open>State.update\<close> empties \<open>bot_message\<close>, \<open>parameters\<close>,
  \<open>extracted_parameters\<close> and \<open>missing_parameters\<close>, sets \<open>intent\<close> and \<open>current_node\<close>
  to \<open>None\<close> and \<open>complete\<close> to false; \<open>thread_id\<close> is unchanged, and the context is the
  old one overridden by the message's, so that no key is lost.
\<close>

theorem update_resets_completed:
  assumes "complete s"
  shows "bot_message (update now m s) = Some []
       \<and> intent (update now m s) = None
       \<and> parameters (update now m s) = []
       \<and> extracted_parameters (update now m s) = Map.empty
       \<and> missing_parameters (update now m s) = []
       \<and> current_node (update now m s) = None
       \<and> \<not> complete (update now m s)
       \<and> thread_id (update now m s) = thread_id s
       \<and> ctx (update now m s) = ctx s ++ or_dict (um_context m)
       \<and> dom (ctx s) \<subseteq> dom (ctx (update now m s))"
  using assms by (auto simp: update_def Let_def or_dict_def split: option.splits)

text \<open>The completed example state, reset by the next message, keeps and extends its context.\<close>

theorem update_resets_completed_witness:
  "complete ex_done
   \<and> (bot_message (update 7 ex_next_message ex_done) = Some []
       \<and> intent (update 7 ex_next_message ex_done) = None
       \<and> parameters (update 7 ex_next_message ex_done) = []
       \<and> extracted_parameters (update 7 ex_next_message ex_done) = Map.empty
       \<and> missing_parameters (update 7 ex_next_message ex_done) = []
       \<and> current_node (update 7 ex_next_message ex_done) = None
       \<and> \<not> complete (update 7 ex_next_message ex_done)
       \<and> thread_id (update 7 ex_next_message ex_done) = thread_id ex_done
       \<and> ctx (update 7 ex_next_message ex_done) = ctx ex_done ++ or_dict (um_context ex_next_message)
       \<and> dom (ctx ex_done) \<subseteq> dom (ctx (update 7 ex_next_message ex_done)))
   \<and> ctx (update 7 ex_next_message ex_done) = [''lang'' \<mapsto> ''en'', ''user'' \<mapsto> ''ann'']"
proof -
  have h: "complete ex_done"
    by (simp add: ex_done_def State_init_def)
  have c: "ctx (update 7 ex_next_message ex_done) = [''lang'' \<mapsto> ''en'', ''user'' \<mapsto> ''ann'']"
    by (simp add: update_def ex_done_def ex_next_message_def State_init_def or_dict_def Let_def)
  show ?thesis
    by (rule conjI[OF h conjI[OF update_resets_completed[OF h] c]])
qed

section \<open>Intent resolution\<close>

lemma split_acc_takeWhile:
  "split_acc d acc cs = (rev acc @ takeWhile (\<lambda>c. c \<noteq> d) cs) #
       (case dropWhile (\<lambda>c. c \<noteq> d) cs of [] \<Rightarrow> [] | _ # r \<Rightarrow> split_acc d [] r)"
  by (induction cs arbitrary: acc) auto

text \<open>
  C6: for a text that starts with a slash, \<open>_get_intent_id_and_confidence\<close> returns the
  characters between that slash and the next one (or the end of the text) with confidence
  1, whatever the NLU result is.
\<close>

theorem slash_command_override:
  assumes "user_message s = Some m" and "take 1 (um_text m) = ''/''"
  shows "get_intent_id_and_confidence dm s nr =
           Inr (Some (takeWhile (\<lambda>c. c \<noteq> CHR ''/'') (tl (um_text m))), 1)"
proof -
  from assms(2) obtain r where r: "um_text m = CHR ''/'' # r"
    by (cases "um_text m") auto
  have "split_char CHR ''/'' (um_text m) = [] # split_acc CHR ''/'' [] r"
    by (simp add: r split_char_def)
  also have "split_acc CHR ''/'' [] r = takeWhile (\<lambda>c. c \<noteq> CHR ''/'') r #
       (case dropWhile (\<lambda>c. c \<noteq> CHR ''/'') r of [] \<Rightarrow> [] | _ # r' \<Rightarrow> split_acc CHR ''/'' [] r')"
    using split_acc_takeWhile[of "CHR ''/''" "[]" r] by simp
  finally show ?thesis
    using assms r by (simp add: get_intent_id_and_confidence_def)
qed

text \<open>The text \<open>/book_flight\<close> resolves to \<open>book_flight\<close> although the NLU predicts \<open>greet\<close>.\<close>

theorem slash_command_override_witness:
  "get_intent_id_and_confidence
      \<lparr> fallback_intent_id = ''fallback'', confidence_threshold = 0.5 \<rparr>
      (ex_turn1\<lparr> user_message := Some (ex_message ''/book_flight'') \<rparr>)
      \<lparr> nr_intent = Some (Some \<lparr> pr_intent = Some (Some ''greet''), pr_confidence = Some 0.9 \<rparr>),
        nr_entities = None \<rparr>
    = Inr (Some ''book_flight'', 1)"
proof -
  have h1: "user_message (ex_turn1\<lparr> user_message := Some (ex_message ''/book_flight'') \<rparr>)
              = Some (ex_message ''/book_flight'')"
    by simp
  have h2: "take 1 (um_text (ex_message ''/book_flight'')) = ''/''"
    by (simp add: ex_message_def)
  show ?thesis
    using slash_command_override[OF h1 h2] by (simp add: ex_message_def)
qed

text \<open>
  For a text that does not start with a slash and a prediction with a confidence: a
  confidence strictly below the threshold gives the fallback intent id with confidence 1,
  whether or not the prediction has the key \<open>intent\<close>; any other confidence gives the
  entry under \<open>intent\<close> with the confidence itself, and a KeyError when there is no such
  entry.
\<close>

lemma get_intent_id_of_prediction:
  assumes "user_message s = Some m" and "take 1 (um_text m) \<noteq> ''/''"
      and "nr_intent nr = Some (Some p)" and "pr_confidence p = Some c"
  shows "get_intent_id_and_confidence dm s nr =
           (if c < confidence_threshold dm
            then Inr (Some (fallback_intent_id dm), 1)
            else (case pr_intent p of None \<Rightarrow> Inl KeyError | Some i \<Rightarrow> Inr (i, c)))"
  using assms by (simp add: get_intent_id_and_confidence_def)

text \<open>
  C7: for a text that does not start with a slash, a predicted confidence strictly below
  the threshold should give the fallback intent id with confidence 1, and any other
  confidence the predicted intent with its own confidence. The code does not do so at the
  prediction \<open>{"name": None, "confidence": 0.0}\<close> that the intent classifier delivers
  when it has nothing to predict: with threshold 0 the confidence is not below the
  threshold, and reading \<open>predicted["intent"]\<close> is a KeyError. The prediction
  \<open>{"intent": None, "confidence": 0.0}\<close> of the zero-shot component is returned as the
  claim says, and with threshold 0.5 both fall back.
\<close>

theorem low_confidence_fallback_key_error:
  "get_intent_id_and_confidence
      \<lparr> fallback_intent_id = ''fallback'', confidence_threshold = 0 \<rparr> ex_turn1
      \<lparr> nr_intent = Some (Some \<lparr> pr_intent = None, pr_confidence = Some 0 \<rparr>),
        nr_entities = None \<rparr>
    = Inl KeyError
   \<and> get_intent_id_and_confidence
      \<lparr> fallback_intent_id = ''fallback'', confidence_threshold = 0 \<rparr> ex_turn1
      \<lparr> nr_intent = Some (Some \<lparr> pr_intent = Some None, pr_confidence = Some 0 \<rparr>),
        nr_entities = None \<rparr>
    = Inr (None, 0)
   \<and> get_intent_id_and_confidence
      \<lparr> fallback_intent_id = ''fallback'', confidence_threshold = 0.5 \<rparr> ex_turn1
      \<lparr> nr_intent = Some (Some \<lparr> pr_intent = None, pr_confidence = Some 0 \<rparr>),
        nr_entities = None \<rparr>
    = Inr (Some ''fallback'', 1)
   \<and> get_intent_id_and_confidence
      \<lparr> fallback_intent_id = ''fallback'', confidence_threshold = 0.5 \<rparr> ex_turn1
      \<lparr> nr_intent = Some (Some \<lparr> pr_intent = Some (Some ''book_flight''),
                                  pr_confidence = Some 0.5 \<rparr>),
        nr_entities = None \<rparr>
    = Inr (Some ''book_flight'', 0.5)"
  by (simp add: get_intent_id_and_confidence_def ex_turn1_def State_init_def ex_message_def)

section \<open>Cancel\<close>

text \<open>
  C8: when the query intent's id is \<open>cancel\<close>, \<open>_process_intent\<close> returns, for every
  state and active intent, the query intent together with a state that is complete and
  has no parameters, no extracted parameters, no missing parameters and no current node.
\<close>

theorem cancel_escape_hatch:
  assumes "intent_id q = ''cancel''"
  shows "\<exists>s'. process_intent q a s = Inr (s', q)
            \<and> complete s'
            \<and> parameters s' = []
            \<and> extracted_parameters s' = Map.empty
            \<and> missing_parameters s' = []
            \<and> current_node s' = None"
  using assms by (simp add: process_intent_def)

text \<open>Cancelling in the middle of the flight booking, with one slot filled and one missing.\<close>

theorem cancel_escape_hatch_witness:
  "intent_id ex_cancel = ''cancel''
   \<and> parameters ex_turn2 \<noteq> [] \<and> extracted_parameters ex_turn2 \<noteq> Map.empty
   \<and> missing_parameters ex_turn2 \<noteq> []
   \<and> (\<exists>s'. process_intent ex_cancel ex_book_flight ex_turn2 = Inr (s', ex_cancel)
            \<and> complete s'
            \<and> parameters s' = []
            \<and> extracted_parameters s' = Map.empty
            \<and> missing_parameters s' = []
            \<and> current_node s' = None)"
proof -
  have h: "intent_id ex_cancel = ''cancel''"
    by (simp add: ex_cancel_def)
  have p: "parameters ex_turn2 \<noteq> []" and m: "missing_parameters ex_turn2 \<noteq> []"
    by (simp_all add: ex_turn2_def ex_turn1_result_def)
  have "extracted_parameters ex_turn2 ''origin'' = Some ''Boston''"
    by (simp add: ex_turn2_def ex_turn1_result_def)
  then have e: "extracted_parameters ex_turn2 \<noteq> Map.empty"
    by auto
  show ?thesis
    by (rule conjI[OF h conjI[OF p conjI[OF e conjI[OF m cancel_escape_hatch[OF h]]]]])
qed

section \<open>Slot filling\<close>

lemma hmp_missing:
  "missing_parameters (handle_missing_parameters ps s) =
     map p_name (required_unfilled ps (extracted_parameters s))"
  by (simp add: handle_missing_parameters_def required_unfilled_def Let_def split: list.splits)

lemma hmp_extracted:
  "extracted_parameters (handle_missing_parameters ps s) = extracted_parameters s"
  by (simp add: handle_missing_parameters_def Let_def split: list.splits)

lemma hmp_parameters:
  "parameters (handle_missing_parameters ps s) = parameters s"
  by (simp add: handle_missing_parameters_def Let_def split: list.splits)

lemma hmp_current_node:
  "current_node (handle_missing_parameters ps s) =
     (case required_unfilled ps (extracted_parameters s) of
        [] \<Rightarrow> None
      | p # _ \<Rightarrow> Some (p_name p))"
  by (simp add: handle_missing_parameters_def required_unfilled_def Let_def split: list.splits)

lemma hmp_bot_message:
  "bot_message (handle_missing_parameters ps s) =
     (case required_unfilled ps (extracted_parameters s) of
        [] \<Rightarrow> Some []
      | p # _ \<Rightarrow> Some (map Segment (split_sentence (p_prompt p))))"
  by (simp add: handle_missing_parameters_def required_unfilled_def Let_def split: list.splits)

lemma hmp_parameters_update:
  "handle_missing_parameters ps (s\<lparr> parameters := ds \<rparr>) =
     (handle_missing_parameters ps s)\<lparr> parameters := ds \<rparr>"
  by (simp add: handle_missing_parameters_def Let_def split: list.splits)

lemma process_intent_cancel:
  "intent_id q = ''cancel'' \<Longrightarrow>
   process_intent q a s =
     Inr (s\<lparr> complete := True, parameters := [], extracted_parameters := Map.empty,
             missing_parameters := [], current_node := None \<rparr>, q)"
  by (simp add: process_intent_def)

lemma process_intent_no_parameters:
  "intent_id q \<noteq> ''cancel'' \<Longrightarrow> im_parameters a = [] \<Longrightarrow>
   process_intent q a s = Inr (s\<lparr> complete := (missing_parameters s = []) \<rparr>, a)"
  by (simp add: process_intent_def)

text \<open>The slot-filling branch, as one equation.\<close>

lemma process_intent_slots_eq:
  assumes "intent_id q \<noteq> ''cancel''" and "im_parameters a \<noteq> []"
  shows "process_intent q a s =
     (case nlu_get_entities s of
        None \<Rightarrow> Inl AttributeError
      | Some es \<Rightarrow>
         (case fill_slots (im_parameters a) (user_message s) (current_node s)
                 (group_entities es Map.empty) (extracted_parameters s) of
            Inl e \<Rightarrow> Inl e
          | Inr (ebt, ex) \<Rightarrow>
              Inr ((handle_missing_parameters (im_parameters a)
                      ((snapshot_parameters (im_parameters a) s)\<lparr> extracted_parameters := ex \<rparr>))
                   \<lparr> complete := (required_unfilled (im_parameters a) ex = []) \<rparr>, a)))"
  using assms
  by (auto simp: process_intent_def Let_def snapshot_parameters_def hmp_missing
           split: option.splits sum.splits)

lemma process_intent_slots:
  assumes "intent_id q \<noteq> ''cancel''" and "im_parameters a \<noteq> []"
      and "process_intent q a s = Inr (s', a')"
  shows "\<exists>es ebt ex.
           nlu_get_entities s = Some es
         \<and> fill_slots (im_parameters a) (user_message s) (current_node s)
              (group_entities es Map.empty) (extracted_parameters s) = Inr (ebt, ex)
         \<and> s' = (handle_missing_parameters (im_parameters a)
                   ((snapshot_parameters (im_parameters a) s)\<lparr> extracted_parameters := ex \<rparr>))
                 \<lparr> complete := (required_unfilled (im_parameters a) ex = []) \<rparr>
         \<and> a' = a"
  using assms(3) unfolding process_intent_slots_eq[OF assms(1,2)]
  by (auto split: option.splits sum.splits)

lemma set_required_unfilled_names:
  "set (map p_name (required_unfilled ps ex)) =
     {p_name p | p. p \<in> set ps \<and> p_required p \<and> ex (p_name p) = None}"
  by (auto simp: required_unfilled_def)

lemma snapshot_names:
  "{d_name d | d. d \<in> set (map snapshot ps) \<and> d_required d \<and> ex (d_name d) = None} =
   {p_name p | p. p \<in> set ps \<and> p_required p \<and> ex (p_name p) = None}"
  by (auto simp: snapshot_def) force

text \<open>
  C1, as amended: after a call of \<open>_process_intent\<close> that returns, \<open>complete\<close> holds
  exactly when \<open>missing_parameters\<close> is empty. When the query intent is not \<open>cancel\<close> and
  the active intent has a parameter, \<open>missing_parameters\<close> lists in declared order the names
  of the active intent's required parameters that are not keys of \<open>extracted_parameters\<close>,
  so the invariant holds over the active intent's parameters, and over the state's own
  parameter list when that was empty on entry. After \<open>cancel\<close> it holds over the state's
  parameter list, both lists being empty. When the active intent has no parameter,
  \<open>missing_parameters\<close> is what it was on entry.
\<close>

theorem missing_parameter_invariant:
  assumes "process_intent q a s = Inr (s', a')"
  shows "(complete s' \<longleftrightarrow> missing_parameters s' = [])
       \<and> (intent_id q \<noteq> ''cancel'' \<and> im_parameters a \<noteq> [] \<longrightarrow>
            missing_parameters s' =
              map p_name (required_unfilled (im_parameters a) (extracted_parameters s'))
            \<and> missing_invariant (im_parameters a) s')
       \<and> (intent_id q \<noteq> ''cancel'' \<and> im_parameters a \<noteq> [] \<and> parameters s = [] \<longrightarrow>
            missing_invariant_state s')
       \<and> (intent_id q = ''cancel'' \<longrightarrow>
            missing_parameters s' = [] \<and> parameters s' = [] \<and> missing_invariant_state s')
       \<and> (intent_id q \<noteq> ''cancel'' \<and> im_parameters a = [] \<longrightarrow>
            missing_parameters s' = missing_parameters s)"
proof (cases "intent_id q = ''cancel''")
  case True
  with assms show ?thesis
    by (auto simp: process_intent_cancel missing_invariant_state_def)
next
  case nc: False
  show ?thesis
  proof (cases "im_parameters a = []")
    case True
    with nc assms show ?thesis
      by (auto simp: process_intent_no_parameters)
  next
    case False
    from process_intent_slots[OF nc False assms] obtain ex where
      s': "s' = (handle_missing_parameters (im_parameters a)
                   ((snapshot_parameters (im_parameters a) s)\<lparr> extracted_parameters := ex \<rparr>))
                 \<lparr> complete := (required_unfilled (im_parameters a) ex = []) \<rparr>"
      by blast
    have ex: "extracted_parameters s' = ex"
      by (simp add: s' hmp_extracted)
    have mi: "missing_parameters s' = map p_name (required_unfilled (im_parameters a) ex)"
      by (simp add: s' hmp_missing)
    have co: "complete s' \<longleftrightarrow> required_unfilled (im_parameters a) ex = []"
      by (simp add: s')
    have inv: "missing_invariant (im_parameters a) s'"
      unfolding missing_invariant_def ex mi set_required_unfilled_names co by simp
    have st: "missing_invariant_state s'" if "parameters s = []"
    proof -
      have "parameters s' = map snapshot (im_parameters a)"
        using that by (simp add: s' hmp_parameters snapshot_parameters_def)
      then show ?thesis
        unfolding missing_invariant_state_def ex mi set_required_unfilled_names co
        by (simp only: snapshot_names) simp
    qed
    from nc False mi co inv st show ?thesis
      by (simp add: ex)
  qed
qed

text \<open>
  The first turn of the flight booking: one slot filled, \<open>destination\<close> missing, not
  complete.
\<close>

lemma ex_turn1_run:
  "process_intent ex_book_flight ex_book_flight ex_turn1 = Inr (ex_turn1_result, ex_book_flight)"
  by (simp add: process_intent_def nlu_get_entities_def ex_turn1_def ex_turn1_result_def
        ex_book_flight_def ex_origin_def ex_destination_def ex_nlu_def ex_message_def
        State_init_def or_dict_def or_list_def snapshot_def snapshot_parameters_def
        handle_missing_parameters_def split_sentence_def Let_def)

theorem missing_parameter_invariant_witness:
  "process_intent ex_book_flight ex_book_flight ex_turn1 = Inr (ex_turn1_result, ex_book_flight)
   \<and> missing_parameters ex_turn1_result = [''destination'']
   \<and> \<not> complete ex_turn1_result
   \<and> missing_invariant (im_parameters ex_book_flight) ex_turn1_result
   \<and> missing_invariant_state ex_turn1_result"
proof -
  have nc: "intent_id ex_book_flight \<noteq> ''cancel''" "im_parameters ex_book_flight \<noteq> []"
           "parameters ex_turn1 = []"
    by (simp_all add: ex_book_flight_def ex_turn1_def State_init_def or_list_def)
  have m: "missing_parameters ex_turn1_result = [''destination'']"
    by (simp add: ex_turn1_result_def)
  from missing_parameter_invariant[OF ex_turn1_run] nc m ex_turn1_run show ?thesis
    by simp
qed

text \<open>
  C1 as stated fails: a state stored in the middle of slot filling that meets an intent
  without parameters keeps its stale \<open>missing_parameters\<close>, while no required parameter,
  of the intent or of the state, is unfilled.
\<close>

theorem missing_parameter_invariant_counterexample:
  "process_intent ex_greet ex_greet ex_stale = Inr (ex_stale, ex_greet)
   \<and> missing_parameters ex_stale = [''destination'']
   \<and> \<not> missing_invariant (im_parameters ex_greet) ex_stale
   \<and> \<not> missing_invariant_state ex_stale"
  by (simp add: process_intent_def ex_greet_def ex_stale_def State_init_def or_list_def
        or_dict_def missing_invariant_def missing_invariant_state_def)

section \<open>The parameter snapshot\<close>

lemma nlu_get_entities_parameters [simp]:
  "nlu_get_entities (s\<lparr> parameters := ds \<rparr>) = nlu_get_entities s"
  by (simp add: nlu_get_entities_def)

lemma process_intent_ignores_snapshot:
  assumes "process_intent q a s = Inr (s', a')"
  shows "\<exists>t'. process_intent q a (s\<lparr> parameters := ds \<rparr>) = Inr (t', a')
              \<and> t'\<lparr> parameters := parameters s' \<rparr> = s'"
proof (cases "intent_id q = ''cancel''")
  case True
  with assms show ?thesis
    by (auto simp: process_intent_cancel)
next
  case nc: False
  show ?thesis
  proof (cases "im_parameters a = []")
    case True
    with nc assms show ?thesis
      by (auto simp: process_intent_no_parameters)
  next
    case False
    let ?ps = "im_parameters a"
    from process_intent_slots[OF nc False assms] obtain es ebt ex where
      es: "nlu_get_entities s = Some es" and
      fs: "fill_slots ?ps (user_message s) (current_node s)
              (group_entities es Map.empty) (extracted_parameters s) = Inr (ebt, ex)" and
      s': "s' = (handle_missing_parameters ?ps
                   ((snapshot_parameters ?ps s)\<lparr> extracted_parameters := ex \<rparr>))
                 \<lparr> complete := (required_unfilled ?ps ex = []) \<rparr>" and
      a': "a' = a"
      by blast
    define X where "X = parameters (snapshot_parameters ?ps (s\<lparr> parameters := ds \<rparr>))"
    define Y where "Y = parameters (snapshot_parameters ?ps s)"
    have sx: "snapshot_parameters ?ps (s\<lparr> parameters := ds \<rparr>) = s\<lparr> parameters := X \<rparr>"
      unfolding X_def by (simp add: snapshot_parameters_def)
    have sy: "snapshot_parameters ?ps s = s\<lparr> parameters := Y \<rparr>"
      unfolding Y_def by (simp add: snapshot_parameters_def)
    have hx: "handle_missing_parameters ?ps (s\<lparr> parameters := X, extracted_parameters := ex \<rparr>)
                = (handle_missing_parameters ?ps (s\<lparr> extracted_parameters := ex \<rparr>))\<lparr> parameters := X \<rparr>"
      by (simp add: handle_missing_parameters_def Let_def split: list.splits)
    have hy: "handle_missing_parameters ?ps (s\<lparr> parameters := Y, extracted_parameters := ex \<rparr>)
                = (handle_missing_parameters ?ps (s\<lparr> extracted_parameters := ex \<rparr>))\<lparr> parameters := Y \<rparr>"
      by (simp add: handle_missing_parameters_def Let_def split: list.splits)
    have "process_intent q a (s\<lparr> parameters := ds \<rparr>) =
            Inr ((handle_missing_parameters ?ps (s\<lparr> extracted_parameters := ex \<rparr>))
                   \<lparr> parameters := X, complete := (required_unfilled ?ps ex = []) \<rparr>, a)"
      unfolding process_intent_slots_eq[OF nc False] sx
      using es fs by (simp add: hx)
    moreover have "s' = (handle_missing_parameters ?ps (s\<lparr> extracted_parameters := ex \<rparr>))
                   \<lparr> parameters := Y, complete := (required_unfilled ?ps ex = []) \<rparr>"
      unfolding s' sy by (simp add: hy)
    ultimately show ?thesis
      using a' by simp
  qed
qed

text \<open>
  C3, as amended: on the first turn of an activation (the state's parameter list empty,
  the active intent with at least one parameter, the query intent not \<open>cancel\<close>),
  \<open>_process_intent\<close> stores the name, type and required flag of each parameter of the
  active intent in \<open>current_state.parameters\<close>; a non-empty stored list is left as it is.
  The slot-filling loop and the computation of the missing parameters run over the
  parameter list of the intent passed in, not over the stored list: the missing
  parameters are the unfilled required parameters of that intent, and replacing the
  stored list by any other changes nothing in the result but the stored list itself.
\<close>

theorem parameter_snapshot:
  assumes "process_intent q a s = Inr (s', a')"
  shows "(intent_id q \<noteq> ''cancel'' \<and> im_parameters a \<noteq> [] \<and> parameters s = [] \<longrightarrow>
            parameters s' = map snapshot (im_parameters a))
       \<and> (intent_id q \<noteq> ''cancel'' \<and> parameters s \<noteq> [] \<longrightarrow> parameters s' = parameters s)
       \<and> (intent_id q \<noteq> ''cancel'' \<and> im_parameters a \<noteq> [] \<longrightarrow>
            missing_parameters s' =
              map p_name (required_unfilled (im_parameters a) (extracted_parameters s')))
       \<and> (\<forall>ds. \<exists>t'. process_intent q a (s\<lparr> parameters := ds \<rparr>) = Inr (t', a')
                    \<and> t'\<lparr> parameters := parameters s' \<rparr> = s')"
proof -
  have 4: "\<forall>ds. \<exists>t'. process_intent q a (s\<lparr> parameters := ds \<rparr>) = Inr (t', a')
                    \<and> t'\<lparr> parameters := parameters s' \<rparr> = s'"
    using process_intent_ignores_snapshot[OF assms] by blast
  show ?thesis
  proof (cases "intent_id q \<noteq> ''cancel'' \<and> im_parameters a \<noteq> []")
    case True
    then have nc: "intent_id q \<noteq> ''cancel''" and ne: "im_parameters a \<noteq> []"
      by simp_all
    from process_intent_slots[OF nc ne assms] obtain ex where
      s': "s' = (handle_missing_parameters (im_parameters a)
                   ((snapshot_parameters (im_parameters a) s)\<lparr> extracted_parameters := ex \<rparr>))
                 \<lparr> complete := (required_unfilled (im_parameters a) ex = []) \<rparr>"
      by blast
    have "parameters s' = parameters (snapshot_parameters (im_parameters a) s)"
      by (simp add: s' hmp_parameters)
    moreover have "missing_parameters s' =
              map p_name (required_unfilled (im_parameters a) (extracted_parameters s'))"
      by (simp add: s' hmp_missing hmp_extracted)
    ultimately show ?thesis
      using 4 by (simp add: snapshot_parameters_def)
  next
    case False
    then have "intent_id q = ''cancel'' \<or> (intent_id q \<noteq> ''cancel'' \<and> im_parameters a = [])"
      by blast
    then show ?thesis
    proof
      assume "intent_id q = ''cancel''"
      then show ?thesis using 4 by simp
    next
      assume h: "intent_id q \<noteq> ''cancel'' \<and> im_parameters a = []"
      with assms have "parameters s' = parameters s"
        by (auto simp: process_intent_no_parameters)
      with h 4 show ?thesis by simp
    qed
  qed
qed

text \<open>
  The first turn of the flight booking stores the two descriptors; the same turn started
  with a foreign stored list gives the same result apart from that list.
\<close>

theorem parameter_snapshot_witness:
  "process_intent ex_book_flight ex_book_flight ex_turn1 = Inr (ex_turn1_result, ex_book_flight)
   \<and> parameters ex_turn1 = []
   \<and> parameters ex_turn1_result = map snapshot [ex_origin, ex_destination]
   \<and> missing_parameters ex_turn1_result =
       map p_name (required_unfilled (im_parameters ex_book_flight)
                     (extracted_parameters ex_turn1_result))
   \<and> (\<exists>t'. process_intent ex_book_flight ex_book_flight
               (ex_turn1\<lparr> parameters := [snapshot ex_travel_date] \<rparr>) = Inr (t', ex_book_flight)
          \<and> t'\<lparr> parameters := parameters ex_turn1_result \<rparr> = ex_turn1_result)"
proof -
  have nc: "intent_id ex_book_flight \<noteq> ''cancel''" "im_parameters ex_book_flight \<noteq> []"
    and e: "parameters ex_turn1 = []"
    and i: "im_parameters ex_book_flight = [ex_origin, ex_destination]"
    by (simp_all add: ex_book_flight_def ex_turn1_def State_init_def or_list_def)
  note T = parameter_snapshot[OF ex_turn1_run]
  from T nc e have 1: "parameters ex_turn1_result = map snapshot (im_parameters ex_book_flight)"
    by blast
  from T nc have 2: "missing_parameters ex_turn1_result =
       map p_name (required_unfilled (im_parameters ex_book_flight)
                     (extracted_parameters ex_turn1_result))"
    by blast
  from T have "\<forall>ds. \<exists>t'. process_intent ex_book_flight ex_book_flight
               (ex_turn1\<lparr> parameters := ds \<rparr>) = Inr (t', ex_book_flight)
          \<and> t'\<lparr> parameters := parameters ex_turn1_result \<rparr> = ex_turn1_result"
    by blast
  then have 3: "\<exists>t'. process_intent ex_book_flight ex_book_flight
               (ex_turn1\<lparr> parameters := [snapshot ex_travel_date] \<rparr>) = Inr (t', ex_book_flight)
          \<and> t'\<lparr> parameters := parameters ex_turn1_result \<rparr> = ex_turn1_result"
    by (rule spec)
  from 1 i have one: "parameters ex_turn1_result = map snapshot [ex_origin, ex_destination]"
    by simp
  show ?thesis
    by (rule conjI[OF ex_turn1_run conjI[OF e conjI[OF one conjI[OF 2 3]]]])
qed

text \<open>
  C3 as stated fails. The second turn starts from the stored descriptors of \<open>origin\<close> and
  \<open>destination\<close>. With the unchanged intent \<open>destination\<close> is reported missing; with the
  intent whose second parameter was replaced in the catalog, \<open>travel_date\<close> is reported
  missing and prompted for, a slot that is not in the stored list.
\<close>

theorem parameter_snapshot_counterexample:
  "parameters ex_turn2 = map snapshot (im_parameters ex_book_flight)
   \<and> process_intent ex_book_flight ex_book_flight ex_turn2 =
       Inr (ex_turn2\<lparr> extracted_parameters := [''origin'' \<mapsto> ''Denver''],
                      missing_parameters := [''destination''],
                      current_node := Some ''destination'',
                      bot_message := Some [Segment ''Where to?'', Segment ''Any city will do.''],
                      complete := False \<rparr>, ex_book_flight)
   \<and> process_intent ex_book_flight_changed ex_book_flight_changed ex_turn2 =
       Inr (ex_turn2\<lparr> extracted_parameters := [''origin'' \<mapsto> ''Denver''],
                      missing_parameters := [''travel_date''],
                      current_node := Some ''travel_date'',
                      bot_message := Some [Segment ''When?''],
                      complete := False \<rparr>, ex_book_flight_changed)
   \<and> ''travel_date'' \<notin> set (map d_name (parameters ex_turn2))"
  by (simp add: process_intent_def nlu_get_entities_def ex_turn2_def ex_turn1_def
        ex_turn1_result_def ex_book_flight_def ex_book_flight_changed_def
        ex_origin_def ex_destination_def ex_travel_date_def ex_nlu_def ex_message_def
        State_init_def or_dict_def or_list_def snapshot_def snapshot_parameters_def
        handle_missing_parameters_def split_sentence_def Let_def)

section \<open>Prompting for a missing parameter\<close>

text \<open>
  C4, as amended: when the query intent is not \<open>cancel\<close> and the active intent has at
  least one parameter, a call of \<open>_process_intent\<close> that leaves no required parameter
  unfilled sets \<open>current_node\<close> to \<open>None\<close> and \<open>bot_message\<close> to the empty list; one that
  leaves some unfilled sets \<open>current_node\<close> to the name of the first of them, which is the
  first entry of \<open>missing_parameters\<close>, and \<open>bot_message\<close> to the segments of its prompt
  split at \<open>###\<close>. When the active intent has no parameter, \<open>current_node\<close> and
  \<open>bot_message\<close> are as on entry; after \<open>cancel\<close>, \<open>current_node\<close> is \<open>None\<close> and
  \<open>bot_message\<close> is as on entry.
\<close>

theorem prompt_for_first_missing:
  assumes "process_intent q a s = Inr (s', a')"
  shows "(intent_id q \<noteq> ''cancel'' \<and> im_parameters a \<noteq> [] \<longrightarrow>
           (case required_unfilled (im_parameters a) (extracted_parameters s') of
              [] \<Rightarrow> missing_parameters s' = [] \<and> current_node s' = None
                     \<and> bot_message s' = Some []
            | p # _ \<Rightarrow> missing_parameters s' \<noteq> [] \<and> hd (missing_parameters s') = p_name p
                     \<and> current_node s' = Some (p_name p)
                     \<and> bot_message s' = Some (map Segment (split_sentence (p_prompt p)))))
       \<and> (intent_id q \<noteq> ''cancel'' \<and> im_parameters a = [] \<longrightarrow>
            current_node s' = current_node s \<and> bot_message s' = bot_message s)
       \<and> (intent_id q = ''cancel'' \<longrightarrow>
            current_node s' = None \<and> bot_message s' = bot_message s)"
proof (cases "intent_id q = ''cancel''")
  case True
  with assms show ?thesis
    by (auto simp: process_intent_cancel)
next
  case nc: False
  show ?thesis
  proof (cases "im_parameters a = []")
    case True
    with nc assms show ?thesis
      by (auto simp: process_intent_no_parameters)
  next
    case False
    from process_intent_slots[OF nc False assms] obtain ex where
      s': "s' = (handle_missing_parameters (im_parameters a)
                   ((snapshot_parameters (im_parameters a) s)\<lparr> extracted_parameters := ex \<rparr>))
                 \<lparr> complete := (required_unfilled (im_parameters a) ex = []) \<rparr>"
      by blast
    have "extracted_parameters s' = ex"
      by (simp add: s' hmp_extracted)
    moreover have "missing_parameters s' = map p_name (required_unfilled (im_parameters a) ex)"
      by (simp add: s' hmp_missing)
    moreover have "current_node s' =
        (case required_unfilled (im_parameters a) ex of [] \<Rightarrow> None | p # _ \<Rightarrow> Some (p_name p))"
      by (simp add: s' hmp_current_node)
    moreover have "bot_message s' =
        (case required_unfilled (im_parameters a) ex of
           [] \<Rightarrow> Some []
         | p # _ \<Rightarrow> Some (map Segment (split_sentence (p_prompt p))))"
      by (simp add: s' hmp_bot_message)
    ultimately show ?thesis
      using nc False by (simp split: list.splits)
  qed
qed

text \<open>
  The first turn of the flight booking prompts for \<open>destination\<close>, in two segments.
\<close>

theorem prompt_for_first_missing_witness:
  "process_intent ex_book_flight ex_book_flight ex_turn1 = Inr (ex_turn1_result, ex_book_flight)
   \<and> required_unfilled (im_parameters ex_book_flight) (extracted_parameters ex_turn1_result)
       = [ex_destination]
   \<and> hd (missing_parameters ex_turn1_result) = ''destination''
   \<and> current_node ex_turn1_result = Some ''destination''
   \<and> bot_message ex_turn1_result = Some (map Segment (split_sentence (p_prompt ex_destination)))
   \<and> split_sentence (p_prompt ex_destination) = [''Where to?'', ''Any city will do.'']"
proof -
  have nc: "intent_id ex_book_flight \<noteq> ''cancel''" "im_parameters ex_book_flight \<noteq> []"
    by (simp_all add: ex_book_flight_def)
  have r: "required_unfilled (im_parameters ex_book_flight) (extracted_parameters ex_turn1_result)
             = [ex_destination]"
    by (simp add: required_unfilled_def ex_book_flight_def ex_turn1_result_def
          ex_origin_def ex_destination_def)
  have sp: "split_sentence (p_prompt ex_destination) = [''Where to?'', ''Any city will do.'']"
    by (simp add: split_sentence_def ex_destination_def)
  have n: "p_name ex_destination = ''destination''"
    by (simp add: ex_destination_def)
  from prompt_for_first_missing[OF ex_turn1_run] nc r sp n ex_turn1_run show ?thesis
    by simp
qed

text \<open>
  C4 as stated fails: the turn that fills the last open slot enters with the prompt of
  the previous turn as \<open>bot_message\<close> and leaves with the empty list.
\<close>

theorem prompt_for_first_missing_counterexample:
  "process_intent ex_book_flight ex_book_flight ex_last_slot =
       Inr (ex_last_slot\<lparr> extracted_parameters :=
                            [''destination'' \<mapsto> ''Denver'', ''origin'' \<mapsto> ''Boston''],
                          missing_parameters := [],
                          current_node := None,
                          bot_message := Some [],
                          complete := True \<rparr>, ex_book_flight)
   \<and> bot_message ex_last_slot = Some [Segment ''Where from?'']
   \<and> Some [] \<noteq> bot_message ex_last_slot"
  by (simp add: process_intent_def nlu_get_entities_def ex_last_slot_def ex_turn1_def
        ex_book_flight_def ex_origin_def ex_destination_def ex_nlu_def ex_message_def
        State_init_def or_dict_def or_list_def snapshot_def snapshot_parameters_def
        handle_missing_parameters_def split_sentence_def Let_def)

section \<open>The extraction loop\<close>












section \<open>Failure of the external API\<close>

lemma call_api_errors:
  "call_api ev u m hs ps j = Inl e \<Longrightarrow>
   e = APICallExcetion \<or> e = ValueError \<or> (\<exists>msg. e = OtherException msg)"
  by (auto simp: call_api_def Let_def split: if_splits http_outcome.splits)

lemma call_intent_api_result:
  assumes "api_details i = Some d"
      and "render ev (url d) (ctx s) (extracted_parameters s) None = Inr u"
      and "request_parameters ev d s = Inr ps"
  shows "call_intent_api ev i s =
           (case call_api ev u (request_type d) (get_headers d) ps (is_json d) of
              Inl e \<Rightarrow> if e = APICallExcetion then Inl DialogueManagerException else Inl e
            | Inr r \<Rightarrow> Inr r)"
  using assms by (simp add: call_intent_api_def split: sum.splits exn.splits)

lemma call_intent_api_cases:
  assumes "api_details i = Some d"
  shows "(\<exists>msg. render ev (url d) (ctx s) (extracted_parameters s) None = Inl msg
              \<and> call_intent_api ev i s = Inl (OtherException msg))
       \<or> (\<exists>u e. render ev (url d) (ctx s) (extracted_parameters s) None = Inr u
              \<and> request_parameters ev d s = Inl e \<and> (\<exists>msg. e = OtherException msg)
              \<and> call_intent_api ev i s = Inl e)
       \<or> (\<exists>u ps. render ev (url d) (ctx s) (extracted_parameters s) None = Inr u
              \<and> request_parameters ev d s = Inr ps)"
proof (cases "render ev (url d) (ctx s) (extracted_parameters s) None")
  case (Inl msg)
  with assms show ?thesis
    by (simp add: call_intent_api_def)
next
  case (Inr u)
  show ?thesis
  proof (cases "request_parameters ev d s")
    case (Inl e)
    then have "\<exists>msg. e = OtherException msg"
      by (auto simp: request_parameters_def split: if_splits sum.splits)
    with assms Inr Inl show ?thesis
      by (simp add: call_intent_api_def)
  next
    case (Inr ps)
    with \<open>render ev (url d) (ctx s) (extracted_parameters s) None = Inr u\<close> show ?thesis
      by simp
  qed
qed

lemma handle_api_trigger_eq:
  assumes "api_trigger i" and "api_details i = Some d"
  shows "handle_api_trigger ev i s =
           (case call_intent_api ev i s of
              Inl e \<Rightarrow> if e = DialogueManagerException
                       then Inr (s\<lparr> bot_message := Some fallback_message \<rparr>) else Inl e
            | Inr r \<Rightarrow>
                (case render ev (speech_response i) (ctx s) (extracted_parameters s) (Some r) of
                   Inl msg \<Rightarrow> Inl (OtherException msg)
                 | Inr t \<Rightarrow> Inr (s\<lparr> bot_message := Some (map Segment (split_sentence t)) \<rparr>)))"
  using assms by (simp add: handle_api_trigger_def split: sum.splits exn.splits)

text \<open>
  C5: for an intent with \<open>api_trigger\<close> and API details, when the URL and the request
  parameters have been built and \<open>call_api\<close> signals \<open>APICallExcetion\<close>,
  \<open>_handle_api_trigger\<close> returns the state with the single fallback segment as
  \<open>bot_message\<close>: nothing is raised to the caller. It absorbs nothing else: whenever it
  returns a state, either that failure occurred and the state carries the fallback message,
  or every step succeeded and the state carries the rendered response; every error of
  \<open>_call_intent_api\<close> other than \<open>DialogueManagerException\<close> is raised unchanged.
\<close>

theorem api_failure_fallback:
  assumes "api_trigger i" and "api_details i = Some d"
  shows "(\<forall>u ps. render ev (url d) (ctx s) (extracted_parameters s) None = Inr u
              \<and> request_parameters ev d s = Inr ps
              \<and> call_api ev u (request_type d) (get_headers d) ps (is_json d)
                    = Inl APICallExcetion
            \<longrightarrow> handle_api_trigger ev i s = Inr (s\<lparr> bot_message := Some fallback_message \<rparr>))
       \<and> (\<forall>s'. handle_api_trigger ev i s = Inr s' \<longrightarrow>
             (\<exists>u ps. render ev (url d) (ctx s) (extracted_parameters s) None = Inr u
                \<and> request_parameters ev d s = Inr ps
                \<and> ((call_api ev u (request_type d) (get_headers d) ps (is_json d)
                       = Inl APICallExcetion
                     \<and> s' = s\<lparr> bot_message := Some fallback_message \<rparr>)
                   \<or> (\<exists>r t. call_api ev u (request_type d) (get_headers d) ps (is_json d) = Inr r
                        \<and> render ev (speech_response i) (ctx s) (extracted_parameters s) (Some r)
                            = Inr t
                        \<and> s' = s\<lparr> bot_message := Some (map Segment (split_sentence t)) \<rparr>))))
       \<and> (\<forall>e. e \<noteq> DialogueManagerException \<and> call_intent_api ev i s = Inl e
            \<longrightarrow> handle_api_trigger ev i s = Inl e)
       \<and> fallback_message = [Segment ''Service is not available. Please try again later.'']"
proof -
  note H = handle_api_trigger_eq[OF assms, of ev s]
  have 1: "handle_api_trigger ev i s = Inr (s\<lparr> bot_message := Some fallback_message \<rparr>)"
    if "render ev (url d) (ctx s) (extracted_parameters s) None = Inr u"
       "request_parameters ev d s = Inr ps"
       "call_api ev u (request_type d) (get_headers d) ps (is_json d) = Inl APICallExcetion"
    for u ps
    unfolding H call_intent_api_result[OF assms(2) that(1,2)] using that(3) by simp
  have 2: "\<exists>u ps. render ev (url d) (ctx s) (extracted_parameters s) None = Inr u
                \<and> request_parameters ev d s = Inr ps
                \<and> ((call_api ev u (request_type d) (get_headers d) ps (is_json d)
                       = Inl APICallExcetion
                     \<and> s' = s\<lparr> bot_message := Some fallback_message \<rparr>)
                   \<or> (\<exists>r t. call_api ev u (request_type d) (get_headers d) ps (is_json d) = Inr r
                        \<and> render ev (speech_response i) (ctx s) (extracted_parameters s) (Some r)
                            = Inr t
                        \<and> s' = s\<lparr> bot_message := Some (map Segment (split_sentence t)) \<rparr>))"
    if r: "handle_api_trigger ev i s = Inr s'" for s'
  proof -
    from call_intent_api_cases[OF assms(2), of ev s]
    consider (url) msg where "call_intent_api ev i s = Inl (OtherException msg)"
      | (par) e msg where "e = OtherException msg" "call_intent_api ev i s = Inl e"
      | (ok) u ps where "render ev (url d) (ctx s) (extracted_parameters s) None = Inr u"
                        "request_parameters ev d s = Inr ps"
      by blast
    then show ?thesis
    proof cases
      case url
      with r show ?thesis unfolding H by simp
    next
      case par
      with r show ?thesis unfolding H by simp
    next
      case ok
      note C = call_intent_api_result[OF assms(2) ok]
      show ?thesis
      proof (cases "call_api ev u (request_type d) (get_headers d) ps (is_json d)")
        case (Inl e)
        from call_api_errors[OF Inl] r Inl ok show ?thesis
          unfolding H C by (auto split: if_splits)
      next
        case (Inr res)
        with r ok show ?thesis
          unfolding H C by (auto split: sum.splits)
      qed
    qed
  qed
  have 3: "handle_api_trigger ev i s = Inl e"
    if "e \<noteq> DialogueManagerException" "call_intent_api ev i s = Inl e" for e
    unfolding H using that by simp
  from 1 2 3 show ?thesis
    unfolding fallback_message_def by blast
qed

text \<open>
  The request of the completed flight booking times out: the reply is the fallback
  message, and no error is returned.
\<close>

theorem api_failure_fallback_witness:
  "api_trigger ex_api_intent \<and> api_details ex_api_intent = Some ex_api_details
   \<and> call_api ex_env_down ''http://flights/book'' (request_type ex_api_details)
         (get_headers ex_api_details) (extracted_parameters ex_done) (is_json ex_api_details)
       = Inl APICallExcetion
   \<and> handle_api_trigger ex_env_down ex_api_intent ex_done
       = Inr (ex_done\<lparr> bot_message :=
                Some [Segment ''Service is not available. Please try again later.''] \<rparr>)"
proof -
  have t: "api_trigger ex_api_intent" and d: "api_details ex_api_intent = Some ex_api_details"
    by (simp_all add: ex_api_intent_def)
  have u: "render ex_env_down (url ex_api_details) (ctx ex_done) (extracted_parameters ex_done) None
             = Inr ''http://flights/book''"
    by (simp add: ex_env_down_def ex_api_details_def)
  have p: "request_parameters ex_env_down ex_api_details ex_done
             = Inr (extracted_parameters ex_done)"
    by (simp add: request_parameters_def ex_api_details_def)
  have c: "call_api ex_env_down ''http://flights/book'' (request_type ex_api_details)
             (get_headers ex_api_details) (extracted_parameters ex_done) (is_json ex_api_details)
           = Inl APICallExcetion"
    by (simp add: call_api_def ex_api_details_def ex_env_down_def)
  from api_failure_fallback[OF t d, of ex_env_down ex_done] u p c
  have "handle_api_trigger ex_env_down ex_api_intent ex_done
          = Inr (ex_done\<lparr> bot_message := Some fallback_message \<rparr>)"
    by blast
  with t d c show ?thesis
    by (simp add: fallback_message_def)
qed

section \<open>Saving and loading a state\<close>

lemma find_one_after_insert:
  "k_thread_id d = Some tid \<Longrightarrow> find_one (insert_one coll d) tid = Some (project d)"
  by (simp add: find_one_def insert_one_def)

lemma find_one_other_thread:
  "k_thread_id d \<noteq> Some tid \<Longrightarrow> find_one (insert_one coll d) tid = find_one coll tid"
  by (simp add: find_one_def insert_one_def)

lemma find_one_save_all:
  "\<forall>x \<in> set later. thread_id (snd x) \<noteq> tid \<Longrightarrow>
   find_one (save_all coll later) tid = find_one coll tid"
proof (induction later arbitrary: coll)
  case Nil
  show ?case by simp
next
  case (Cons x later)
  obtain t st where x: "x = (t, st)" by (cases x)
  from Cons.prems have o: "thread_id st \<noteq> tid" and r: "\<forall>y \<in> set later. thread_id (snd y) \<noteq> tid"
    by (simp_all add: x)
  have "find_one (save_all (save coll t st) later) tid = find_one (save coll t st) tid"
    by (rule Cons.IH[OF r])
  also have "\<dots> = find_one coll tid"
    unfolding save_def using o by (intro find_one_other_thread) (simp add: to_dict_def)
  finally show ?case by (simp add: x)
qed

text \<open>
  C10, as amended: a state saved with its own thread id as argument and loaded again
  comes back as follows, whatever was stored before and whatever is saved in between, as
  long as no state saved in between has that thread id as its own \<open>thread_id\<close> (the
  argument of \<open>save\<close> is not read). It has the same \<open>thread_id\<close>, context,
  \<open>parameters\<close>, \<open>extracted_parameters\<close>, \<open>missing_parameters\<close>, \<open>complete\<close> and
  \<open>current_node\<close>; its \<open>intent\<close> is as it was unless it was \<open>None\<close>, which comes
  back as the empty dictionary; \<open>user_message\<close> and \<open>bot_message\<close> come back as
  \<open>None\<close>, \<open>nlu\<close> as the empty dictionary and \<open>date\<close> as the time of loading, whatever
  was saved.
\<close>

theorem save_get_roundtrip:
  assumes "thread_id s = tid"
      and "\<forall>x \<in> set later. thread_id (snd x) \<noteq> tid"
  shows "\<exists>s'. get now (save_all (save coll tid s) later) tid = Inr (Some s')
          \<and> thread_id s' = thread_id s
          \<and> ctx s' = ctx s
          \<and> parameters s' = parameters s
          \<and> extracted_parameters s' = extracted_parameters s
          \<and> missing_parameters s' = missing_parameters s
          \<and> complete s' = complete s
          \<and> current_node s' = current_node s
          \<and> intent s' = Some (or_dict (intent s))
          \<and> (intent s \<noteq> None \<longrightarrow> intent s' = intent s)
          \<and> user_message s' = None
          \<and> bot_message s' = None
          \<and> nlu s' = None
          \<and> date s' = now"
proof -
  have "k_thread_id (to_dict s) = Some tid"
    using assms(1) by (simp add: to_dict_def)
  then have "find_one (save coll tid s) tid = Some (project (to_dict s))"
    unfolding save_def by (rule find_one_after_insert)
  then have "find_one (save_all (save coll tid s) later) tid = Some (project (to_dict s))"
    by (simp add: find_one_save_all[OF assms(2)])
  then show ?thesis
    by (auto simp: get_def from_dict_def project_def to_dict_def State_init_def dget_def
          or_dict_def or_list_def)
qed

text \<open>
  The completed flight booking, saved on top of an older state of its thread, followed by
  the save of a state of thread \<open>t2\<close> that is passed \<open>t1\<close> as argument, and loaded at
  time 10.
\<close>

theorem save_get_roundtrip_witness:
  "thread_id ex_done = ''t1''
   \<and> thread_id (ex_turn1\<lparr> thread_id := ''t2'' \<rparr>) \<noteq> ''t1''
   \<and> get 10 (save_all (save [to_dict ex_turn1_result] ''t1'' ex_done)
                [(''t1'', ex_turn1\<lparr> thread_id := ''t2'' \<rparr>)]) ''t1''
       = Inr (Some (ex_done\<lparr> user_message := None, bot_message := None, date := 10 \<rparr>))
   \<and> user_message ex_done \<noteq> None \<and> bot_message ex_done \<noteq> None \<and> date ex_done \<noteq> 10"
proof -
  have t: "thread_id ex_done = ''t1''"
    by (simp add: ex_done_def State_init_def)
  have o: "\<forall>x \<in> set [(''t1'', ex_turn1\<lparr> thread_id := ''t2'' \<rparr>)]. thread_id (snd x) \<noteq> ''t1''"
    by simp
  from save_get_roundtrip[OF t o, of 10 "[to_dict ex_turn1_result]"]
  obtain s' where g: "get 10 (save_all (save [to_dict ex_turn1_result] ''t1'' ex_done)
                [(''t1'', ex_turn1\<lparr> thread_id := ''t2'' \<rparr>)]) ''t1'' = Inr (Some s')"
    and f: "thread_id s' = thread_id ex_done" "ctx s' = ctx ex_done"
       "parameters s' = parameters ex_done"
       "extracted_parameters s' = extracted_parameters ex_done"
       "missing_parameters s' = missing_parameters ex_done"
       "complete s' = complete ex_done" "current_node s' = current_node ex_done"
       "intent s' = Some (or_dict (intent ex_done))"
       "user_message s' = None" "bot_message s' = None" "nlu s' = None" "date s' = 10"
    by blast
  have e: "s' = ex_done\<lparr> user_message := None, bot_message := None, date := 10 \<rparr>"
    using f by (cases s') (simp add: ex_done_def State_init_def or_dict_def)
  have n: "user_message ex_done \<noteq> None \<and> bot_message ex_done \<noteq> None \<and> date ex_done \<noteq> 10"
    by (simp add: ex_done_def State_init_def)
  from g e have g': "get 10 (save_all (save [to_dict ex_turn1_result] ''t1'' ex_done)
                [(''t1'', ex_turn1\<lparr> thread_id := ''t2'' \<rparr>)]) ''t1''
       = Inr (Some (ex_done\<lparr> user_message := None, bot_message := None, date := 10 \<rparr>))"
    by simp
  have o': "thread_id (ex_turn1\<lparr> thread_id := ''t2'' \<rparr>) \<noteq> ''t1''"
    by simp
  show ?thesis
    by (rule conjI[OF t conjI[OF o' conjI[OF g' n]]])
qed

text \<open>
  C10 as stated fails. A completed state reset by \<open>State.update\<close> has \<open>intent\<close> equal to
  \<open>None\<close>; saved and loaded, its \<open>intent\<close> is the empty dictionary. And \<open>save\<close> files the
  state under the state's own thread id: a state saved with another thread id as argument
  is not found under that id, and a state of thread \<open>t1\<close> saved with \<open>t2\<close> as argument
  after the save of the completed booking is what loading \<open>t1\<close> returns.
\<close>

theorem save_get_roundtrip_counterexample:
  "intent (update 9 ex_next_message ex_done) = None
   \<and> get 10 (save [] ''t1'' (update 9 ex_next_message ex_done)) ''t1''
       = Inr (Some ((update 9 ex_next_message ex_done)
                      \<lparr> user_message := None, bot_message := None,
                        intent := Some Map.empty, date := 10 \<rparr>))
   \<and> get 10 (save [] ''t2'' ex_done) ''t2'' = Inr None
   \<and> get 10 (save (save [] ''t1'' ex_done) ''t2'' ex_turn1_result) ''t1''
       = Inr (Some (ex_turn1_result\<lparr> user_message := None, bot_message := None,
                                     nlu := None, date := 10 \<rparr>))
   \<and> complete ex_done \<and> \<not> complete ex_turn1_result"
  by (simp add: get_def save_def insert_one_def find_one_def project_def to_dict_def
        from_dict_def dget_def State_init_def or_dict_def or_list_def update_def Let_def
        ex_done_def ex_next_message_def ex_turn1_result_def ex_turn1_def ex_message_def
        ex_nlu_def snapshot_def ex_origin_def ex_destination_def)

end
